theory Spec2Isabelle
  imports Main
begin

section \<open>Strings\<close>

text \<open>
  Command-line tokens are modelled as byte strings (\<open>string\<close> is \<open>char list\<close>, one
  \<open>char\<close> per byte), the \<open>str\<close> of the Python 2 the module was written for.
  \<open>str.startswith\<close> is a prefix test, \<open>spec[1:]\<close> is \<open>drop 1\<close> (slicing never raises),
  and \<open>str.upper\<close> maps the letters \<open>a\<close>..\<open>z\<close> to \<open>A\<close>..\<open>Z\<close> and leaves every
  other byte alone.
\<close>

definition startswith :: "string \<Rightarrow> string \<Rightarrow> bool" where
  "startswith s p = (take (length p) s = p)"






section \<open>Parsing of label and flag specifications\<close>


text \<open>
  \<open>labelspec(spec)\<close>: the action is the string \<open>'-'\<close> or \<open>'+'\<close>, as in the source; the
  \<open>'-'\<close> test comes first.
\<close>

definition labelspec :: "string \<Rightarrow> string \<times> string" where
  "labelspec spec =
     (if startswith spec ''-'' then (''-'', drop 1 spec)
      else if startswith spec ''+'' then (''+'', drop 1 spec)
      else (''+'', spec))"




section \<open>Chunking\<close>

text \<open>
  Modelled from the spec: \<open>gmailfilters.util.chunker\<close> is imported by the module but its
  source is not part of the files at hand. The specification says that the per-folder
  processor partitions the message-identifier sequence into fixed-size batches, preserving
  order, non-overlapping and exhaustive. \<open>chunker seq n\<close> cuts \<open>n\<close> elements off the
  front of \<open>seq\<close> until nothing is left. The specification speaks of positive sizes only;
  at size 0 the model yields no batch.
\<close>

function chunker :: "'a list \<Rightarrow> nat \<Rightarrow> 'a list list" where
  "chunker seq n =
     (if n = 0 \<or> seq = [] then []
      else take n seq # chunker (drop n seq) n)"
  by pat_completeness auto
termination
  by (relation "measure (\<lambda>(seq, n). length seq)") auto

declare chunker.simps [simp del]

section \<open>The mail server, exceptions and the trace of a run\<close>

text \<open>
  Message identifiers are the UIDs the client library returns (Python integers).
\<close>

type_synonym msgid = int

text \<open>
  An exception raised inside the client library: an instance of \<open>imaplib.IMAP4.error\<close>
  (the only class \<open>process_one_folder\<close> catches), or anything else (a socket error, say).
\<close>

datatype lib_error = IMAP4_error | Other_error

text \<open>
  What ends a run abnormally: the exceptions the command raises itself, the
  \<open>IndexError\<close> and \<open>KeyError\<close> of Python's indexing, and a library exception that
  nothing caught.
\<close>

datatype exn =
    NoSuchAccount string
  | NoMatchingFolders
  | InvalidOptions
  | NoMatchingMessages
  | IndexError
  | KeyError
  | Propagated lib_error

text \<open>The arguments handed to a logging call after its format string.\<close>

datatype logarg =
    AStr string
  | AInt int
  | ASpecs "(string \<times> string) list"
  | AExcType lib_error
  | AExc lib_error

text \<open>
  Everything a run does to the outside world, in the order it happens: the calls on the
  client library (\<open>imapclient.IMAPClient(host, use_uid=True, ssl=...)\<close>, \<open>login\<close>,
  \<open>select_folder\<close>, \<open>search\<close>, \<open>gmail_search\<close>, \<open>add_flags\<close>, \<open>remove_flags\<close>,
  \<open>add_gmail_labels\<close>, \<open>remove_gmail_labels\<close>, \<open>fetch\<close> with
  \<open>data=['ENVELOPE', 'X-GM-LABELS']\<close>, \<open>delete_messages\<close>, \<open>expunge\<close>), the calls
  of \<open>self.app.LOG.info\<close> and \<open>self.app.LOG.error\<close> with their format string and
  arguments, and the call \<open>self.show_message(msgid, msg)\<close>, which prints the block of
  lines of one message (its formatting is not modelled; \<open>'m\<close> is the fetched data of a
  message). \<open>SelectFolders\<close> stands for the folder resolution of the base class, see
  \<open>select_folders\<close> below.
\<close>

datatype 'm event =
    Connect string bool
  | Login string string
  | SelectFolders "string list"
  | SelectFolder string
  | Search
  | GmailSearch string
  | AddFlags "msgid list" "string list"
  | RemoveFlags "msgid list" "string list"
  | AddGmailLabels "msgid list" "string list"
  | RemoveGmailLabels "msgid list" "string list"
  | Fetch "msgid list"
  | DeleteMessages "msgid list"
  | Expunge
  | LogInfo string "logarg list"
  | LogError string "logarg list"
  | ShowMessage msgid 'm

text \<open>
  The server and the client library are outside the program. They are a parameter: for
  every call, given everything that happened before it, the server either raises or
  returns. Calls whose value the program ignores share \<open>command_reply\<close>; \<open>search\<close>
  and \<open>gmail_search\<close> return a list of identifiers; \<open>fetch\<close> returns a dictionary,
  given by the list of its items.
\<close>

record 'm server =
  command_reply :: "'m event list \<Rightarrow> 'm event \<Rightarrow> lib_error option"
  search_reply :: "'m event list \<Rightarrow> 'm event \<Rightarrow> lib_error + msgid list"
  fetch_reply :: "'m event list \<Rightarrow> msgid list \<Rightarrow> lib_error + (msgid \<times> 'm) list"
  select_folders_reply :: "'m event list \<Rightarrow> string list \<Rightarrow> lib_error + string list"

text \<open>
  A piece of program takes the trace so far and returns the extended trace with either
  the exception that ended it or its value.
\<close>

type_synonym ('m, 'a) prog = "'m event list \<Rightarrow> 'm event list \<times> (exn + 'a)"

definition succeed :: "'a \<Rightarrow> ('m, 'a) prog" where
  "succeed x = (\<lambda>h. (h, Inr x))"

definition throw :: "exn \<Rightarrow> ('m, 'a) prog" where
  "throw e = (\<lambda>h. (h, Inl e))"

definition and_then :: "('m, 'a) prog \<Rightarrow> ('a \<Rightarrow> ('m, 'b) prog) \<Rightarrow> ('m, 'b) prog" where
  "and_then p f = (\<lambda>h. case p h of (h', Inl e) \<Rightarrow> (h', Inl e) | (h', Inr x) \<Rightarrow> f x h')"

definition then_do :: "('m, 'a) prog \<Rightarrow> ('m, 'b) prog \<Rightarrow> ('m, 'b) prog" where
  "then_do p q = and_then p (\<lambda>_. q)"

definition emit :: "'m event \<Rightarrow> ('m, unit) prog" where
  "emit e = (\<lambda>h. (h @ [e], Inr ()))"

text \<open>A \<open>for\<close> loop: the body runs on each element in order; an exception ends the loop.\<close>

fun for_each :: "('x \<Rightarrow> ('m, unit) prog) \<Rightarrow> 'x list \<Rightarrow> ('m, unit) prog" where
  "for_each body [] h = (h, Inr ())"
| "for_each body (x # xs) h =
     (case body x h of
        (h', Inl e) \<Rightarrow> (h', Inl e)
      | (h', Inr _) \<Rightarrow> for_each body xs h')"

text \<open>A library call whose exception is inspected by the caller.\<close>

definition reply :: "'m server \<Rightarrow> 'm event \<Rightarrow> ('m, lib_error option) prog" where
  "reply srv c = (\<lambda>h. (h @ [c], Inr (command_reply srv h c)))"

text \<open>A library call whose value is ignored and whose exception propagates.\<close>

definition command :: "'m server \<Rightarrow> 'm event \<Rightarrow> ('m, unit) prog" where
  "command srv c =
     and_then (reply srv c)
       (\<lambda>r. case r of None \<Rightarrow> succeed () | Some e \<Rightarrow> throw (Propagated e))"

definition search :: "'m server \<Rightarrow> 'm event \<Rightarrow> ('m, msgid list) prog" where
  "search srv c =
     (\<lambda>h. (h @ [c], case search_reply srv h c of
                       Inl e \<Rightarrow> Inl (Propagated e)
                     | Inr messages \<Rightarrow> Inr messages))"

definition fetch :: "'m server \<Rightarrow> msgid list \<Rightarrow> ('m, (msgid \<times> 'm) list) prog" where
  "fetch srv chunk =
     (\<lambda>h. (h @ [Fetch chunk], case fetch_reply srv h chunk of
                                 Inl e \<Rightarrow> Inl (Propagated e)
                               | Inr res \<Rightarrow> Inr res))"

text \<open>
  Modelled from the spec: \<open>BaseClientCommand.select_folders\<close> is inherited from
  \<open>gmailfilters.cmd.baseclient\<close>, whose source is not part of the files at hand. The
  specification says that the folder resolver turns the folder tokens into a concrete
  ordered list of real folder names through the folder-listing capability of the
  connection. The model keeps that activity as the single event \<open>SelectFolders tokens\<close>
  and takes the resolved list from the server parameter.
\<close>

definition select_folders :: "'m server \<Rightarrow> string list \<Rightarrow> ('m, string list) prog" where
  "select_folders srv tokens =
     (\<lambda>h. (h @ [SelectFolders tokens], case select_folders_reply srv h tokens of
                                          Inl e \<Rightarrow> Inl (Propagated e)
                                        | Inr selected \<Rightarrow> Inr selected))"

text \<open>\<open>chunk[0]\<close> and \<open>chunk[-1]\<close>: Python raises \<open>IndexError\<close> on an empty list.\<close>

definition first_item :: "msgid list \<Rightarrow> ('m, msgid) prog" where
  "first_item chunk = (case chunk of [] \<Rightarrow> throw IndexError | x # _ \<Rightarrow> succeed x)"

definition last_item :: "msgid list \<Rightarrow> ('m, msgid) prog" where
  "last_item chunk = (if chunk = [] then throw IndexError else succeed (last chunk))"

text \<open>
  \<open>self.app.LOG.info(fmt, chunk[0], chunk[-1], ...)\<close>: the arguments are evaluated before
  the call is made.
\<close>

definition log_info_chunk :: "string \<Rightarrow> msgid list \<Rightarrow> logarg list \<Rightarrow> ('m, unit) prog" where
  "log_info_chunk fmt chunk rest =
     and_then (first_item chunk) (\<lambda>a.
     and_then (last_item chunk) (\<lambda>b.
     emit (LogInfo fmt ([AInt a, AInt b] @ rest))))"

section \<open>The command\<close>

text \<open>
  The parsed command line (\<open>args\<close>), as far as \<open>BulkFilter\<close> reads it. \<open>flag\<close> and
  \<open>label\<close> hold the pairs that \<open>flagspec\<close> and \<open>labelspec\<close> return; \<open>chunksize\<close> is
  declared by the base class. (\<open>args.debug_imap\<close> is only stored in an attribute of the
  client object.)
\<close>

record args =
  opt_account :: string
  opt_folders :: "string list"
  opt_query :: "string option"
  opt_fail_if_empty :: bool
  opt_flag :: "(string \<times> string) list"
  opt_label :: "(string \<times> string) list"
  opt_delete :: bool
  opt_trash :: bool
  opt_show :: bool
  opt_archive :: bool
  opt_chunksize :: nat

text \<open>An entry of the \<open>accounts\<close> table of the configuration; \<open>ssl\<close> is optional.\<close>

record account_entry =
  host :: string
  username :: string
  password :: string
  ssl :: "bool option"

text \<open>
  \<open>process_messages(folder, chunk)\<close>, block by block. The labels \<open>'\\Inbox'\<close> and
  \<open>'\\Trash'\<close> start with a backslash. The archive block logs \<open>self.args.label\<close>, as
  the source does.
\<close>

definition process_messages :: "'m server \<Rightarrow> args \<Rightarrow> string \<Rightarrow> msgid list \<Rightarrow> ('m, unit) prog" where
  "process_messages srv args folder chunk =
     (let add_flags = [snd flag. flag \<leftarrow> opt_flag args, fst flag = ''+''];
          del_flags = [snd flag. flag \<leftarrow> opt_flag args, fst flag = ''-''];
          add_labels = [snd label. label \<leftarrow> opt_label args, fst label = ''+''];
          del_labels = [snd label. label \<leftarrow> opt_label args, fst label = ''-'']
      in
      then_do
        (if opt_flag args \<noteq> [] then
           then_do (log_info_chunk ''applying flags to  messages %d...%d from %s (%s)'' chunk
                      [AStr folder, ASpecs (opt_flag args)])
          (then_do (command srv (AddFlags chunk add_flags))
                   (command srv (RemoveFlags chunk del_flags)))
         else succeed ())
     (then_do
        (if opt_label args \<noteq> [] then
           then_do (log_info_chunk ''labelling messages %d...%d from %s (%s)'' chunk
                      [AStr folder, ASpecs (opt_label args)])
          (then_do (command srv (AddGmailLabels chunk add_labels))
                   (command srv (RemoveGmailLabels chunk del_labels)))
         else succeed ())
     (then_do
        (if opt_archive args then
           then_do (log_info_chunk ''archiving messages %d...%d from %s (%s)'' chunk
                      [AStr folder, ASpecs (opt_label args)])
                   (command srv (RemoveGmailLabels chunk [CHR 0x5C # ''Inbox'']))
         else succeed ())
     (then_do
        (if opt_show args then
           then_do (log_info_chunk ''getting info for messages %d...%d from %s'' chunk
                      [AStr folder])
          (and_then (fetch srv chunk) (\<lambda>res.
             for_each (\<lambda>msg. case map_of res msg of
                                None \<Rightarrow> throw KeyError
                              | Some m \<Rightarrow> emit (ShowMessage msg m))
                      (sort (remdups (map fst res)))))
         else succeed ())
     (then_do
        (if opt_trash args then
           then_do (log_info_chunk ''trashing messages %d...%d from %s'' chunk [AStr folder])
                   (command srv (AddGmailLabels chunk [CHR 0x5C # ''Trash'']))
         else succeed ())
        (if opt_delete args then
           then_do (log_info_chunk ''deleting messages %d...%d from %s'' chunk [AStr folder])
          (then_do (command srv (DeleteMessages chunk))
          (then_do (log_info_chunk ''expunging messages %d...%d from %s'' chunk [AStr folder])
                   (command srv Expunge)))
         else succeed ()))))))"

text \<open>
  \<open>process_one_folder(folder)\<close>: an \<open>imaplib.IMAP4.error\<close> from \<open>select_folder\<close> is
  logged and the function returns; any other exception propagates.
\<close>

definition process_one_folder :: "'m server \<Rightarrow> args \<Rightarrow> string \<Rightarrow> ('m, unit) prog" where
  "process_one_folder srv args folder =
     then_do (emit (LogInfo ''processing folder %s'' [AStr folder]))
    (and_then (reply srv (SelectFolder folder)) (\<lambda>r.
       case r of
         Some IMAP4_error \<Rightarrow>
           emit (LogError ''failed to select %s (%s): %s''
                   [AStr folder, AExcType IMAP4_error, AExc IMAP4_error])
       | Some Other_error \<Rightarrow> throw (Propagated Other_error)
       | None \<Rightarrow>
           and_then
             (case opt_query args of
                None \<Rightarrow>
                  then_do (emit (LogInfo ''selecting all messages in %s'' [AStr folder]))
                          (search srv Search)
              | Some q \<Rightarrow>
                  then_do (emit (LogInfo ''selecting messages in %s matching: %s''
                                   [AStr folder, AStr q]))
                          (search srv (GmailSearch q)))
             (\<lambda>messages.
                then_do (emit (LogInfo ''found %d messages'' [AInt (int (length messages))]))
                  (if opt_fail_if_empty args \<and> messages = [] then throw NoMatchingMessages
                   else for_each (process_messages srv args folder)
                          (chunker messages (opt_chunksize args))))))"

text \<open>
  Modelled from the spec: \<open>BaseClientCommand.process_folders\<close> is inherited from the
  base class, whose source is not part of the files at hand. The specification says that
  the per-folder processor runs for each resolved folder, in order, and that a fatal
  error aborts the entire run.
\<close>

definition process_folders :: "'m server \<Rightarrow> args \<Rightarrow> string list \<Rightarrow> ('m, unit) prog" where
  "process_folders srv args selected_folders =
     for_each (process_one_folder srv args) selected_folders"

text \<open>
  \<open>take_action(args)\<close>. \<open>accounts\<close> is \<open>self.app.config['accounts']\<close>; \<open>None\<close> stands
  for a configuration in which that lookup raises \<open>TypeError\<close> or \<open>KeyError\<close>.
\<close>

definition take_action ::
  "'m server \<Rightarrow> (string \<Rightarrow> account_entry option) option \<Rightarrow> args \<Rightarrow> ('m, unit) prog" where
  "take_action srv accounts args =
     (case (case accounts of None \<Rightarrow> None | Some table \<Rightarrow> table (opt_account args)) of
        None \<Rightarrow> throw (NoSuchAccount (opt_account args))
      | Some account \<Rightarrow>
          then_do (command srv (Connect (host account)
                                  (case ssl account of None \<Rightarrow> True | Some b \<Rightarrow> b)))
         (then_do (command srv (Login (username account) (password account)))
         (and_then (select_folders srv (opt_folders args)) (\<lambda>selected_folders.
            if selected_folders = [] then throw NoMatchingFolders
            else if opt_fail_if_empty args \<and> length selected_folders > 1
              then throw InvalidOptions
            else process_folders srv args selected_folders))))"

text \<open>A run of the command starts with an empty trace.\<close>

definition run ::
  "'m server \<Rightarrow> (string \<Rightarrow> account_entry option) option \<Rightarrow> args \<Rightarrow> 'm event list \<times> (exn + unit)" where
  "run srv accounts args = take_action srv accounts args []"

section \<open>Reading a trace\<close>

fun is_connection :: "'m event \<Rightarrow> bool" where
  "is_connection (Connect _ _) = True"
| "is_connection (Login _ _) = True"
| "is_connection _ = False"

fun is_search :: "'m event \<Rightarrow> bool" where
  "is_search Search = True"
| "is_search (GmailSearch _) = True"
| "is_search _ = False"

fun is_mutation :: "'m event \<Rightarrow> bool" where
  "is_mutation (AddFlags _ _) = True"
| "is_mutation (RemoveFlags _ _) = True"
| "is_mutation (AddGmailLabels _ _) = True"
| "is_mutation (RemoveGmailLabels _ _) = True"
| "is_mutation (DeleteMessages _) = True"
| "is_mutation Expunge = True"
| "is_mutation _ = False"






text \<open>What a piece of program adds to the trace it starts from.\<close>

definition added :: "('m, 'a) prog \<Rightarrow> 'm event list \<Rightarrow> 'm event list" where
  "added p h = drop (length h) (fst (p h))"

section \<open>The blocks of \<open>process_messages\<close>\<close>








section \<open>What a completed block adds to the trace\<close>










section \<open>Example inputs\<close>

text \<open>
  A server that accepts every call, resolves the folder tokens to themselves, finds the
  messages 50, 10 and 7 in that order, and fetches the messages it is asked for.
\<close>

definition example_server :: "string server" where
  "example_server =
     \<lparr> command_reply = (\<lambda>h c. None),
       search_reply = (\<lambda>h c. Inr [50, 10, 7]),
       fetch_reply = (\<lambda>h chunk. Inr (map (\<lambda>k. (k, ''envelope'')) chunk)),
       select_folders_reply = (\<lambda>h tokens. Inr tokens) \<rparr>"

text \<open>The same server with no message in any folder.\<close>

definition empty_server :: "string server" where
  "empty_server = example_server \<lparr> search_reply := (\<lambda>h c. Inr []) \<rparr>"

text \<open>The same server, but \<open>select_folder\<close> raises \<open>imaplib.IMAP4.error\<close>.\<close>

definition refusing_server :: "string server" where
  "refusing_server =
     example_server \<lparr> command_reply :=
       (\<lambda>h c. case c of SelectFolder _ \<Rightarrow> Some IMAP4_error | _ \<Rightarrow> None) \<rparr>"

definition example_accounts :: "(string \<Rightarrow> account_entry option) option" where
  "example_accounts =
     Some (\<lambda>name. if name = ''me''
                   then Some \<lparr> host = ''imap.example.org'', username = ''user'',
                               password = ''secret'', ssl = None \<rparr>
                   else None)"

text \<open>\<open>--fail-if-empty INBOX\<close> for the account \<open>me\<close>, with no action.\<close>

definition example_args :: args where
  "example_args =
     \<lparr> opt_account = ''me'', opt_folders = [''INBOX''], opt_query = None,
       opt_fail_if_empty = True, opt_flag = [], opt_label = [], opt_delete = False,
       opt_trash = False, opt_show = False, opt_archive = False, opt_chunksize = 2 \<rparr>"

section \<open>The parsers\<close>

text \<open>
  C2. For every token \<open>t\<close>: \<open>labelspec\<close> of \<open>'+'\<close> followed by \<open>t\<close> is the pair of
  \<open>'+'\<close> (add) and \<open>t\<close>; \<open>labelspec\<close> of \<open>'-'\<close> followed by \<open>t\<close> is the pair of
  \<open>'-'\<close> (remove) and \<open>t\<close>; a token with no leading sign is returned whole with the
  action \<open>'+'\<close>. The function has no failing path: on every token it returns one of the
  two actions with the token, or the token without its sign.
\<close>

theorem labelspec_sign_and_value:
  "labelspec (''+'' @ t) = (''+'', t)
   \<and> labelspec (''-'' @ t) = (''-'', t)
   \<and> (\<not> startswith t ''+'' \<and> \<not> startswith t ''-'' \<longrightarrow> labelspec t = (''+'', t))
   \<and> (fst (labelspec t) = ''+'' \<or> fst (labelspec t) = ''-'')
   \<and> (snd (labelspec t) = t \<or> fst (labelspec t) @ snd (labelspec t) = t)"
  by (cases t) (auto simp: labelspec_def startswith_def)

theorem labelspec_sign_and_value_witness:
  "labelspec ''+todo'' = (''+'', ''todo'')
   \<and> labelspec ''-todo'' = (''-'', ''todo'')
   \<and> \<not> startswith ''todo'' ''+'' \<and> \<not> startswith ''todo'' ''-''
   \<and> labelspec ''todo'' = (''+'', ''todo'')"
  using labelspec_sign_and_value [of "''todo''"]
  by (simp add: startswith_def)











section \<open>Chunking is exhaustive and keeps the order\<close>

lemma chunker_Nil: "chunker [] n = []"
  by (simp add: chunker.simps)

lemma chunker_zero: "chunker seq 0 = []"
  by (simp add: chunker.simps)

lemma chunker_step:
  "0 < n \<Longrightarrow> seq \<noteq> [] \<Longrightarrow> chunker seq n = take n seq # chunker (drop n seq) n"
  by (subst chunker.simps) simp

lemma chunker_concat: "0 < n \<Longrightarrow> concat (chunker seq n) = seq"
proof (induction seq n rule: chunker.induct)
  case (1 seq n)
  show ?case
  proof (cases "seq = []")
    case True
    then show ?thesis by (simp add: chunker_Nil)
  next
    case False
    with 1 show ?thesis by (simp add: chunker_step)
  qed
qed

lemma chunker_bounded: "b \<in> set (chunker seq n) \<Longrightarrow> length b \<le> n \<and> b \<noteq> []"
proof (induction seq n rule: chunker.induct)
  case (1 seq n)
  show ?case
  proof (cases "n = 0 \<or> seq = []")
    case True
    with 1(2) show ?thesis by (auto simp: chunker_Nil chunker_zero)
  next
    case False
    with 1 show ?thesis by (auto simp: chunker_step)
  qed
qed

lemma chunker_full: "b \<in> set (butlast (chunker seq n)) \<Longrightarrow> length b = n"
proof (induction seq n rule: chunker.induct)
  case (1 seq n)
  show ?case
  proof (cases "n = 0 \<or> seq = []")
    case True
    with 1(2) show ?thesis by (auto simp: chunker_Nil chunker_zero)
  next
    case False
    then have step: "chunker seq n = take n seq # chunker (drop n seq) n"
      by (simp add: chunker_step)
    show ?thesis
    proof (cases "chunker (drop n seq) n = []")
      case True
      with 1(2) step show ?thesis by simp
    next
      case more: False
      then have "drop n seq \<noteq> []" by (auto simp: chunker_Nil)
      then have len: "length (take n seq) = n" by simp
      from 1(2) step more
      have "b = take n seq \<or> b \<in> set (butlast (chunker (drop n seq) n))" by auto
      with len 1(1) False show ?thesis by auto
    qed
  qed
qed

text \<open>
  C4. For every sequence of message identifiers and every positive chunk size, the
  batches concatenated in order are the sequence itself, every batch has at most the
  chunk size (and is not empty), and every batch but the last has exactly the chunk size.
\<close>

theorem chunker_exhaustive_and_ordered:
  "0 < n \<Longrightarrow>
     concat (chunker seq n) = seq
     \<and> (\<forall>b\<in>set (chunker seq n). length b \<le> n \<and> b \<noteq> [])
     \<and> (\<forall>b\<in>set (butlast (chunker seq n)). length b = n)"
  using chunker_concat [of n seq] chunker_bounded [of _ seq n] chunker_full [of _ seq n]
  by blast

theorem chunker_exhaustive_and_ordered_witness:
  "(0::nat) < 2
   \<and> chunker [50, 10, 7, 3, 9 :: int] 2 = [[50, 10], [7, 3], [9]]
   \<and> concat (chunker [50, 10, 7, 3, 9 :: int] 2) = [50, 10, 7, 3, 9]
   \<and> map length (chunker [50, 10, 7, 3, 9 :: int] 2) = [2, 2, 1]"
proof -
  have "chunker [50, 10, 7, 3, 9 :: int] 2 = [[50, 10], [7, 3], [9]]"
    by (simp add: chunker.simps)
  with chunker_exhaustive_and_ordered [of 2 "[50, 10, 7, 3, 9 :: int]"]
  show ?thesis by simp
qed

section \<open>The batch action dispatcher\<close>









subsection \<open>A batch that runs to its end\<close>
















subsection \<open>Any batch, whether it runs to its end or not\<close>

















subsection \<open>Evaluating the examples\<close>

lemmas run_defs =
  run_def take_action_def process_folders_def process_one_folder_def process_messages_def
  then_do_def and_then_def command_def reply_def succeed_def throw_def emit_def search_def
  fetch_def select_folders_def log_info_chunk_def first_item_def last_item_def added_def
  example_server_def empty_server_def refusing_server_def example_accounts_def example_args_def

subsection \<open>Flags\<close>



subsection \<open>The order of the actions\<close>



subsection \<open>Delete and expunge\<close>





subsection \<open>Show\<close>



section \<open>The run\<close>

subsection \<open>\<open>--fail-if-empty\<close> with several folders\<close>

text \<open>
  C1, as stated, does not hold: \<open>take_action\<close> can only count the folders after it
  has opened the connection, logged in and resolved the folder tokens. In the run below,
  \<open>--fail-if-empty\<close> is given with the two folders \<open>INBOX\<close> and \<open>Spam\<close>; the run
  fails with \<open>InvalidOptions\<close>, and by then the connection has been opened and the login
  performed.
\<close>

theorem fail_if_empty_with_two_folders_connects_first:
  "snd (run example_server example_accounts
          (example_args \<lparr> opt_folders := [''INBOX'', ''Spam''] \<rparr>))
     = Inl InvalidOptions
   \<and> filter is_connection
       (fst (run example_server example_accounts
               (example_args \<lparr> opt_folders := [''INBOX'', ''Spam''] \<rparr>)))
     = [Connect ''imap.example.org'' True, Login ''user'' ''secret'']"
  by (simp add: run_defs)

text \<open>
  C1, amended. When \<open>--fail-if-empty\<close> is given and the folder resolution yields two or
  more folders, the run fails with \<open>InvalidOptions\<close> after the connection has been
  opened, the login performed and the folders resolved (each without error), and before
  anything else: no folder is selected, no search is issued and no message is changed.
\<close>

theorem invalid_options_raised_after_login:
  fixes srv :: "'m server"
  assumes "opt_fail_if_empty args"
    and "accounts = Some table" and "table (opt_account args) = Some account"
    and "connect = Connect (host account) (case ssl account of None \<Rightarrow> True | Some b \<Rightarrow> b)"
    and "login = Login (username account) (password account)"
    and "command_reply srv [] connect = None"
    and "command_reply srv [connect] login = None"
    and "select_folders_reply srv [connect, login] (opt_folders args) = Inr selected"
    and "2 \<le> length selected"
  shows "run srv accounts args
           = ([connect, login, SelectFolders (opt_folders args)], Inl InvalidOptions)"
  using assms
  by (auto simp: run_def take_action_def then_do_def and_then_def command_def reply_def
      succeed_def throw_def select_folders_def)

theorem invalid_options_raised_after_login_witness:
  "run example_server example_accounts (example_args \<lparr> opt_folders := [''INBOX'', ''Spam''] \<rparr>)
     = ([Connect ''imap.example.org'' True, Login ''user'' ''secret'',
         SelectFolders [''INBOX'', ''Spam'']], Inl InvalidOptions)"
  using invalid_options_raised_after_login
    [of "example_args \<lparr> opt_folders := [''INBOX'', ''Spam''] \<rparr>" example_accounts _ _
      "Connect ''imap.example.org'' True" "Login ''user'' ''secret''" example_server
      "[''INBOX'', ''Spam'']"]
  by (simp add: example_server_def example_accounts_def example_args_def)

subsection \<open>\<open>--fail-if-empty\<close> and an empty search result\<close>

text \<open>
  C5. With \<open>--fail-if-empty\<close>, in a run that reaches the search of its folder (the
  account is found, the connection, the login, the folder resolution and the selection
  of the folder succeed), if the search (\<open>search\<close> without a query, \<open>gmail_search\<close> with
  one) returns no message, the run ends with \<open>NoMatchingMessages\<close> and its trace holds
  no call that changes a message: no flag, label, archive, trash, delete or expunge call.
\<close>

theorem no_matching_messages_aborts_without_mutation:
  fixes srv :: "'m server"
  assumes "opt_fail_if_empty args"
    and "accounts = Some table" and "table (opt_account args) = Some account"
    and "connect = Connect (host account) (case ssl account of None \<Rightarrow> True | Some b \<Rightarrow> b)"
    and "login = Login (username account) (password account)"
    and "command_reply srv [] connect = None"
    and "command_reply srv [connect] login = None"
    and "select_folders_reply srv [connect, login] (opt_folders args) = Inr [folder]"
    and "before_select = [connect, login, SelectFolders (opt_folders args),
                          LogInfo ''processing folder %s'' [AStr folder]]"
    and "command_reply srv before_select (SelectFolder folder) = None"
    and "opt_query args = None \<Longrightarrow>
           search_reply srv
             (before_select @ [SelectFolder folder,
                LogInfo ''selecting all messages in %s'' [AStr folder]])
             Search = Inr []"
    and "\<And>q. opt_query args = Some q \<Longrightarrow>
           search_reply srv
             (before_select @ [SelectFolder folder,
                LogInfo ''selecting messages in %s matching: %s'' [AStr folder, AStr q]])
             (GmailSearch q) = Inr []"
  shows "snd (run srv accounts args) = Inl NoMatchingMessages
     \<and> filter is_mutation (fst (run srv accounts args)) = []"
proof (cases "opt_query args")
  case None
  with assms show ?thesis
    by (simp add: run_def take_action_def process_folders_def process_one_folder_def
        then_do_def and_then_def command_def reply_def succeed_def throw_def emit_def
        search_def select_folders_def)
next
  case (Some q)
  with assms(12) [OF Some] assms(1-10) show ?thesis
    by (simp add: run_def take_action_def process_folders_def process_one_folder_def
        then_do_def and_then_def command_def reply_def succeed_def throw_def emit_def
        search_def select_folders_def)
qed

theorem no_matching_messages_aborts_without_mutation_witness:
  "run empty_server example_accounts
     (example_args \<lparr> opt_flag := [(''+'', CHR 0x5C # ''Seen'')], opt_delete := True \<rparr>)
     = ([Connect ''imap.example.org'' True, Login ''user'' ''secret'', SelectFolders [''INBOX''],
         LogInfo ''processing folder %s'' [AStr ''INBOX''], SelectFolder ''INBOX'',
         LogInfo ''selecting all messages in %s'' [AStr ''INBOX''], Search,
         LogInfo ''found %d messages'' [AInt 0]],
        Inl NoMatchingMessages)
   \<and> filter is_mutation
       (fst (run empty_server example_accounts
          (example_args \<lparr> opt_flag := [(''+'', CHR 0x5C # ''Seen'')], opt_delete := True \<rparr>)))
     = []"
  using no_matching_messages_aborts_without_mutation
    [of "example_args \<lparr> opt_flag := [(''+'', CHR 0x5C # ''Seen'')], opt_delete := True \<rparr>"
      example_accounts _ _ "Connect ''imap.example.org'' True" "Login ''user'' ''secret''"
      empty_server "''INBOX''"]
  by (simp add: run_defs)

subsection \<open>A folder that cannot be selected\<close>

text \<open>
  C10. With \<open>--fail-if-empty\<close> and exactly one resolved folder, if \<open>select_folder\<close>
  fails on that folder with an \<open>imaplib.IMAP4.error\<close>, the run does not raise
  \<open>NoMatchingMessages\<close>: the failure is logged with \<open>LOG.error\<close>, no search is made,
  no message is processed, and the run ends normally. The trace of the run is given in
  full.
\<close>

theorem select_failure_is_logged_and_skipped:
  fixes srv :: "'m server"
  assumes "opt_fail_if_empty args"
    and "accounts = Some table" and "table (opt_account args) = Some account"
    and "connect = Connect (host account) (case ssl account of None \<Rightarrow> True | Some b \<Rightarrow> b)"
    and "login = Login (username account) (password account)"
    and "command_reply srv [] connect = None"
    and "command_reply srv [connect] login = None"
    and "select_folders_reply srv [connect, login] (opt_folders args) = Inr [folder]"
    and "before_select = [connect, login, SelectFolders (opt_folders args),
                          LogInfo ''processing folder %s'' [AStr folder]]"
    and "command_reply srv before_select (SelectFolder folder) = Some IMAP4_error"
  shows "run srv accounts args =
      (before_select @ [SelectFolder folder,
         LogError ''failed to select %s (%s): %s''
           [AStr folder, AExcType IMAP4_error, AExc IMAP4_error]],
       Inr ())
     \<and> filter is_search (fst (run srv accounts args)) = []
     \<and> filter is_mutation (fst (run srv accounts args)) = []"
  using assms
  by (simp add: run_def take_action_def process_folders_def process_one_folder_def
      then_do_def and_then_def command_def reply_def succeed_def throw_def emit_def
      search_def select_folders_def)

theorem select_failure_is_logged_and_skipped_witness:
  "run refusing_server example_accounts example_args
     = ([Connect ''imap.example.org'' True, Login ''user'' ''secret'', SelectFolders [''INBOX''],
         LogInfo ''processing folder %s'' [AStr ''INBOX''], SelectFolder ''INBOX'',
         LogError ''failed to select %s (%s): %s''
           [AStr ''INBOX'', AExcType IMAP4_error, AExc IMAP4_error]],
        Inr ())"
  using select_failure_is_logged_and_skipped
    [of example_args example_accounts _ _ "Connect ''imap.example.org'' True"
      "Login ''user'' ''secret''" refusing_server "''INBOX''"]
  by (simp add: run_defs)


end
